theory Spec2Isabelle
  imports Complex_Main
begin

section \<open>The transcription script \<^verbatim>\<open>scripts/transcribe.py\<close>\<close>

text \<open>
  The script is a thin orchestration of three collaborators: the temporary-file
  facility, the external media tool started as a subprocess, and the speech model
  library. The collaborators are not part of the script; their behaviour is a
  parameter of the model (the record \<open>env\<close>), and every theorem below holds for
  every such behaviour. What the script itself does (the order of the calls, the
  arguments it passes, the \<^verbatim>\<open>try\<close>/\<^verbatim>\<open>finally\<close> and \<^verbatim>\<open>try\<close>/\<^verbatim>\<open>except\<close>
  blocks, the loop over the segments, the texts it prints) is written out.

  Conventions.
  \<^item> A Python \<^verbatim>\<open>str\<close> is a \<open>string\<close>; a \<open>char\<close> is read as the code point of the
    same number, so the model covers the texts whose code points are below 256.
  \<^item> A Python \<^verbatim>\<open>float\<close> is the real number it denotes. The script only copies
    floats; their printed form is the parameter \<open>float_repr\<close>.
  \<^item> An exception is a value of type \<open>exn\<close>; a call that may raise returns
    \<open>exn + 'a\<close> with \<open>Inl\<close> for the exception. Every exception of the model is an
    instance of Python's \<^verbatim>\<open>Exception\<close>.
  \<^item> The file system is the set of paths that exist. Whether a path can be examined
    and whether it can be removed is decided by the operating system, which is a
    collaborator too. Standard output and standard error are the lists of the lines
    printed so far. The field \<open>calls\<close> logs each call made to a collaborator, in
    order.
\<close>

subsection \<open>Data\<close>

datatype exn =
    CalledProcessError int "string list" string string
      \<comment> \<open>return code, command, captured stdout, captured stderr\<close>
  | OSError string
      \<comment> \<open>the operating system refused (file not found, permission); the text is \<^verbatim>\<open>str(e)\<close>\<close>
  | LibraryError string
      \<comment> \<open>any exception raised by the speech model library; the text is \<^verbatim>\<open>str(e)\<close>\<close>

datatype proc_outcome =
    LaunchFailed string
      \<comment> \<open>the program could not be started, for instance it is not on the path;
         the text is the message of the operating system's error\<close>
  | Exited int string string
      \<comment> \<open>return code, stdout, stderr\<close>

record segment =
  "text" :: string

record transcription_info =
  language :: string
  language_probability :: real
  duration :: real

text \<open>
  The segments come from a generator: it is consumed once, it is finite, and it may
  raise in the middle, since decoding happens while it is iterated.
\<close>

datatype seg_stream =
    Stop
  | Yield segment seg_stream
  | Fail exn

datatype whisper_model = Model string string string
  \<comment> \<open>a loaded model: size, device, compute type\<close>

datatype json = JString string | JNumber real

type_synonym py_dict = "(string \<times> json) list"

datatype call =
    is_CreateTemp: CreateTemp string
  | is_RunProcess: RunProcess "string list"
  | is_LoadModel: LoadModel string string string
  | is_Transcribe: Transcribe whisper_model string nat
  | is_Unlink: Unlink string

record world =
  files :: "string set"
  calls :: "call list"
  stdout :: "string list"
  stderr :: "string list"

record env =
  mkstemp :: "string \<Rightarrow> string set \<Rightarrow> exn + string"
    \<comment> \<open>suffix, existing files: the path of the new file, or the exception\<close>
  run_process :: "string list \<Rightarrow> string set \<Rightarrow> proc_outcome \<times> string set"
    \<comment> \<open>argument vector, existing files: outcome and the files afterwards\<close>
  load_model :: "string \<Rightarrow> string \<Rightarrow> string \<Rightarrow> string set \<Rightarrow> exn option \<times> string set"
    \<comment> \<open>size, device, compute type: \<open>None\<close> when the model loads\<close>
  run_inference :: "whisper_model \<Rightarrow> string \<Rightarrow> nat \<Rightarrow> string set
    \<Rightarrow> (exn + seg_stream \<times> transcription_info) \<times> string set"
    \<comment> \<open>model, audio path, beam size\<close>
  signal_name :: "nat \<Rightarrow> string option"
    \<comment> \<open>the platform's table of signal names, \<^verbatim>\<open>signal.Signals\<close>\<close>
  float_repr :: "real \<Rightarrow> string"
    \<comment> \<open>\<^verbatim>\<open>float.__repr__\<close>\<close>
  stat_permitted :: "string \<Rightarrow> string set \<Rightarrow> bool"
    \<comment> \<open>path, existing files: whether \<^verbatim>\<open>os.stat\<close> of the path is permitted\<close>
  unlink_error :: "string \<Rightarrow> string set \<Rightarrow> exn option"
    \<comment> \<open>path, existing files: \<open>None\<close> when \<^verbatim>\<open>os.unlink\<close> removes the path,
       the exception it raises otherwise\<close>

subsection \<open>Python's string operations\<close>

text \<open>\<^verbatim>\<open>str.isspace\<close> on one character, for the code points below 256.\<close>

definition py_isspace :: "char \<Rightarrow> bool" where
  "py_isspace c =
     (let n = (of_char c :: nat)
      in (9 \<le> n \<and> n \<le> 13) \<or> (28 \<le> n \<and> n \<le> 32) \<or> n = 133 \<or> n = 160)"

text \<open>\<^verbatim>\<open>s.strip()\<close>: skip whitespace from the left, then from the right.\<close>

definition py_strip :: "string \<Rightarrow> string" where
  "py_strip s = rev (dropWhile py_isspace (rev (dropWhile py_isspace s)))"

text \<open>\<^verbatim>\<open>sep.join(items)\<close>: the items in order, \<open>sep\<close> before each item but the first.\<close>

fun py_join :: "string \<Rightarrow> string list \<Rightarrow> string" where
  "py_join sep [] = []"
| "py_join sep (x # xs) = foldl (\<lambda>acc y. acc @ sep @ y) x xs"

definition hex_digit :: "nat \<Rightarrow> char" where
  "hex_digit d = (''0123456789abcdef'') ! (d mod 16)"

definition hex2 :: "nat \<Rightarrow> string" where
  "hex2 n = [hex_digit (n div 16), hex_digit n]"

function show_nat :: "nat \<Rightarrow> string" where
  "show_nat n =
     (if n < 10 then [hex_digit n] else show_nat (n div 10) @ [hex_digit (n mod 10)])"
  by pat_completeness auto
termination
  by (relation "measure id") auto

text \<open>\<^verbatim>\<open>"%d" % i\<close>.\<close>

definition show_int :: "int \<Rightarrow> string" where
  "show_int i = (if i < 0 then ''-'' @ show_nat (nat (- i)) else show_nat (nat i))"

text \<open>
  \<^verbatim>\<open>repr(s)\<close> of a string: single quotes, unless the text holds a single quote and no
  double quote; the quote in use and the backslash are escaped, tab, newline and
  carriage return are written \<^verbatim>\<open>\t\<close>, \<^verbatim>\<open>\n\<close>, \<^verbatim>\<open>\r\<close>, and the other non-printable
  characters \<^verbatim>\<open>\xhh\<close>.
\<close>

definition py_printable :: "char \<Rightarrow> bool" where
  "py_printable c =
     (let n = (of_char c :: nat)
      in (32 \<le> n \<and> n < 127) \<or> (161 \<le> n \<and> n \<noteq> 173))"

definition repr_char :: "char \<Rightarrow> char \<Rightarrow> string" where
  "repr_char quote c =
     (if c = quote \<or> c = CHR 0x5C then [CHR 0x5C, c]
      else if c = CHR 0x09 then [CHR 0x5C, CHR ''t'']
      else if c = CHR 0x0A then [CHR 0x5C, CHR ''n'']
      else if c = CHR 0x0D then [CHR 0x5C, CHR ''r'']
      else if py_printable c then [c]
      else [CHR 0x5C, CHR ''x''] @ hex2 (of_char c))"

definition py_repr :: "string \<Rightarrow> string" where
  "py_repr s =
     (let quote = (if CHR 0x27 \<in> set s \<and> CHR 0x22 \<notin> set s then CHR 0x22 else CHR 0x27)
      in [quote] @ concat (map (repr_char quote) s) @ [quote])"

text \<open>\<^verbatim>\<open>str(xs)\<close> of a list of strings.\<close>

definition str_list :: "string list \<Rightarrow> string" where
  "str_list xs = ''['' @ py_join '', '' (map py_repr xs) @ '']''"

text \<open>
  \<^verbatim>\<open>str(e)\<close>. For \<^verbatim>\<open>CalledProcessError\<close> this is the standard library's
  \<^verbatim>\<open>__str__\<close>: a negative return code is a signal, named from the platform's table.
\<close>

fun str_exn :: "(nat \<Rightarrow> string option) \<Rightarrow> exn \<Rightarrow> string" where
  "str_exn sig (CalledProcessError returncode cmd out err) =
     (if returncode < 0 then
        (case sig (nat (- returncode)) of
           Some name \<Rightarrow>
             ''Command '' @ [CHR 0x27] @ str_list cmd @ [CHR 0x27] @ '' died with <Signals.''
               @ name @ '': '' @ show_nat (nat (- returncode)) @ ''>.''
         | None \<Rightarrow>
             ''Command '' @ [CHR 0x27] @ str_list cmd @ [CHR 0x27]
               @ '' died with unknown signal '' @ show_nat (nat (- returncode)) @ ''.'')
      else
        ''Command '' @ [CHR 0x27] @ str_list cmd @ [CHR 0x27]
          @ '' returned non-zero exit status '' @ show_int returncode @ ''.'')"
| "str_exn sig (OSError msg) = msg"
| "str_exn sig (LibraryError msg) = msg"


subsection \<open>\<^verbatim>\<open>json.dumps\<close> with its default arguments\<close>

text \<open>
  Strings are written in ASCII: the quote, the backslash and the usual control
  characters have short escapes, every other character outside the range from the
  space to the tilde is written \<^verbatim>\<open>\u00hh\<close>.
\<close>

definition json_escape :: "char \<Rightarrow> string" where
  "json_escape c =
     (if c = CHR 0x22 then [CHR 0x5C, CHR 0x22]
      else if c = CHR 0x5C then [CHR 0x5C, CHR 0x5C]
      else if c = CHR 0x0A then [CHR 0x5C, CHR ''n'']
      else if c = CHR 0x0D then [CHR 0x5C, CHR ''r'']
      else if c = CHR 0x09 then [CHR 0x5C, CHR ''t'']
      else if c = CHR 0x08 then [CHR 0x5C, CHR ''b'']
      else if c = CHR 0x0C then [CHR 0x5C, CHR ''f'']
      else if 32 \<le> (of_char c :: nat) \<and> (of_char c :: nat) < 127 then [c]
      else [CHR 0x5C, CHR ''u'', CHR ''0'', CHR ''0''] @ hex2 (of_char c))"

definition json_string :: "string \<Rightarrow> string" where
  "json_string s = [CHR 0x22] @ concat (map json_escape s) @ [CHR 0x22]"

fun json_value :: "(real \<Rightarrow> string) \<Rightarrow> json \<Rightarrow> string" where
  "json_value fr (JString s) = json_string s"
| "json_value fr (JNumber x) = fr x"

definition json_dumps :: "(real \<Rightarrow> string) \<Rightarrow> py_dict \<Rightarrow> string" where
  "json_dumps fr d =
     ''{'' @ py_join '', '' (map (\<lambda>(k, v). json_string k @ '': '' @ json_value fr v) d) @ ''}''"

subsection \<open>The collaborators, as the script calls them\<close>

text \<open>
  \<^verbatim>\<open>with tempfile.NamedTemporaryFile(suffix=..., delete=False) as f: name = f.name\<close>:
  a new file is created and closed, and stays.
\<close>

definition NamedTemporaryFile :: "env \<Rightarrow> string \<Rightarrow> world \<Rightarrow> (exn + string) \<times> world" where
  "NamedTemporaryFile env suffix w =
     (case mkstemp env suffix (files w) of
        Inl e \<Rightarrow> (Inl e, w\<lparr>calls := calls w @ [CreateTemp suffix]\<rparr>)
      | Inr name \<Rightarrow>
          (Inr name, w\<lparr>files := insert name (files w), calls := calls w @ [CreateTemp suffix]\<rparr>))"

text \<open>
  \<^verbatim>\<open>subprocess.run(cmd, check=True, capture_output=True)\<close>: the output of the program
  goes to pipes, a program that cannot be started raises the error of the operating
  system, and a return code other than 0 raises \<^verbatim>\<open>CalledProcessError\<close>.
\<close>

definition subprocess_run :: "env \<Rightarrow> string list \<Rightarrow> world \<Rightarrow> (exn + unit) \<times> world" where
  "subprocess_run env cmd w =
     (case run_process env cmd (files w) of
        (outcome, fs) \<Rightarrow>
          (let w' = w\<lparr>files := fs, calls := calls w @ [RunProcess cmd]\<rparr>
           in case outcome of
                LaunchFailed msg \<Rightarrow> (Inl (OSError msg), w')
              | Exited returncode out err \<Rightarrow>
                  if returncode \<noteq> 0 then (Inl (CalledProcessError returncode cmd out err), w')
                  else (Inr (), w')))"

definition WhisperModel ::
  "env \<Rightarrow> string \<Rightarrow> string \<Rightarrow> string \<Rightarrow> world \<Rightarrow> (exn + whisper_model) \<times> world" where
  "WhisperModel env model_size device compute_type w =
     (case load_model env model_size device compute_type (files w) of
        (r, fs) \<Rightarrow>
          (let w' = w\<lparr>files := fs, calls := calls w @ [LoadModel model_size device compute_type]\<rparr>
           in case r of
                Some e \<Rightarrow> (Inl e, w')
              | None \<Rightarrow> (Inr (Model model_size device compute_type), w')))"

definition model_transcribe ::
  "env \<Rightarrow> whisper_model \<Rightarrow> string \<Rightarrow> nat \<Rightarrow> world
    \<Rightarrow> (exn + seg_stream \<times> transcription_info) \<times> world" where
  "model_transcribe env model audio beam_size w =
     (case run_inference env model audio beam_size (files w) of
        (r, fs) \<Rightarrow> (r, w\<lparr>files := fs, calls := calls w @ [Transcribe model audio beam_size]\<rparr>))"

text \<open>
  \<^verbatim>\<open>os.path.exists(path)\<close>: the path exists and \<^verbatim>\<open>os.stat\<close> does not fail on it; where
  the operating system refuses the \<^verbatim>\<open>stat\<close>, the answer is \<^verbatim>\<open>False\<close> although the file is
  there.
\<close>

definition os_path_exists :: "env \<Rightarrow> string \<Rightarrow> world \<Rightarrow> bool" where
  "os_path_exists env path w = (path \<in> files w \<and> stat_permitted env path (files w))"

text \<open>
  \<^verbatim>\<open>os.unlink(path)\<close>: the path is removed, or the call raises and the files stay as
  they are.
\<close>

definition os_unlink :: "env \<Rightarrow> string \<Rightarrow> world \<Rightarrow> (exn + unit) \<times> world" where
  "os_unlink env path w =
     (case unlink_error env path (files w) of
        Some e \<Rightarrow> (Inl e, w\<lparr>calls := calls w @ [Unlink path]\<rparr>)
      | None \<Rightarrow> (Inr (), w\<lparr>files := files w - {path}, calls := calls w @ [Unlink path]\<rparr>))"

subsection \<open>\<^verbatim>\<open>transcribe_video\<close>\<close>

text \<open>
  The loop \<^verbatim>\<open>for segment in segments: transcript_parts.append(segment.text.strip())\<close>.
\<close>

fun collect_parts :: "seg_stream \<Rightarrow> string list \<Rightarrow> exn + string list" where
  "collect_parts Stop transcript_parts = Inr transcript_parts"
| "collect_parts (Yield segment rest) transcript_parts =
     collect_parts rest (transcript_parts @ [py_strip (text segment)])"
| "collect_parts (Fail e) transcript_parts = Inl e"

text \<open>The body of the \<^verbatim>\<open>try\<close> block.\<close>

definition try_block ::
  "env \<Rightarrow> string \<Rightarrow> string \<Rightarrow> string \<Rightarrow> world \<Rightarrow> (exn + py_dict) \<times> world" where
  "try_block env video_path model_size audio_path w =
     (let ffmpeg_cmd =
            [''ffmpeg'', ''-i'', video_path, ''-vn'', ''-acodec'', ''pcm_s16le'',
             ''-ar'', ''16000'', ''-ac'', ''1'', ''-y'', audio_path]
      in case subprocess_run env ffmpeg_cmd w of
           (Inl e, w1) \<Rightarrow> (Inl e, w1)
         | (Inr u, w1) \<Rightarrow>
        (case WhisperModel env model_size ''cpu'' ''int8'' w1 of
           (Inl e, w2) \<Rightarrow> (Inl e, w2)
         | (Inr model, w2) \<Rightarrow>
        (case model_transcribe env model audio_path 5 w2 of
           (Inl e, w3) \<Rightarrow> (Inl e, w3)
         | (Inr (segments, info), w3) \<Rightarrow>
        (case collect_parts segments [] of
           Inl e \<Rightarrow> (Inl e, w3)
         | Inr transcript_parts \<Rightarrow>
             (let full_transcript = py_join '' '' transcript_parts
              in (Inr [(''transcript'', JString full_transcript),
                       (''language'', JString (language info)),
                       (''language_probability'', JNumber (language_probability info)),
                       (''duration'', JNumber (duration info))], w3))))))"

text \<open>The \<^verbatim>\<open>finally\<close> block: \<^verbatim>\<open>if os.path.exists(audio_path): os.unlink(audio_path)\<close>.\<close>

definition finally_block :: "env \<Rightarrow> string \<Rightarrow> world \<Rightarrow> (exn + unit) \<times> world" where
  "finally_block env audio_path w =
     (if os_path_exists env audio_path w then os_unlink env audio_path w else (Inr (), w))"

text \<open>
  The \<^verbatim>\<open>finally\<close> block runs whether the \<^verbatim>\<open>try\<close> block returned or raised. If it raises
  itself, its exception is the outcome of the call, in place of the result or of the
  exception of the \<^verbatim>\<open>try\<close> block.
\<close>

definition transcribe_video ::
  "env \<Rightarrow> string \<Rightarrow> string \<Rightarrow> world \<Rightarrow> (exn + py_dict) \<times> world" where
  "transcribe_video env video_path model_size w =
     (case NamedTemporaryFile env ''.wav'' w of
        (Inl e, w0) \<Rightarrow> (Inl e, w0)
      | (Inr audio_path, w0) \<Rightarrow>
          (case try_block env video_path model_size audio_path w0 of
             (r, w1) \<Rightarrow>
               (case finally_block env audio_path w1 of
                  (Inl e, w2) \<Rightarrow> (Inl e, w2)
                | (Inr u, w2) \<Rightarrow> (r, w2))))"

subsection \<open>The main program\<close>

text \<open>The result is the exit code of the process and the world it leaves.\<close>

definition main :: "env \<Rightarrow> string list \<Rightarrow> world \<Rightarrow> int \<times> world" where
  \<open>main env argv w =
     (if length argv < 2 then
        (1, w\<lparr>stderr := stderr w @ [''{"error": "Usage: transcribe.py <video_path> [model_size]"}'']\<rparr>)
      else
        (let video_path = argv ! 1;
             model_size = (if length argv > 2 then argv ! 2 else ''base'')
         in case transcribe_video env video_path model_size w of
              (Inr result, w') \<Rightarrow>
                (0, w'\<lparr>stdout := stdout w' @ [json_dumps (float_repr env) result]\<rparr>)
            | (Inl e, w') \<Rightarrow>
                (1, w'\<lparr>stderr := stderr w' @
                       [''{"error": "'' @ str_exn (signal_name env) e @ ''"}'']\<rparr>)))\<close>

subsection \<open>Reading the error line as JSON\<close>

text \<open>
  The inside of a JSON string literal (RFC 8259): no bare double quote, no control
  character, and a backslash only in front of one of \<^verbatim>\<open>" \ / b f n r t\<close> or of \<^verbatim>\<open>u\<close> and
  four hexadecimal digits. After \<^verbatim>\<open>\u\<close> the four digits are checked and then read
  again as ordinary characters, which they are.
\<close>

definition is_hex :: "char \<Rightarrow> bool" where
  "is_hex c = (c \<in> set ''0123456789abcdefABCDEF'')"

fun json_string_body :: "string \<Rightarrow> bool" where
  "json_string_body [] = True"
| "json_string_body (c # cs) =
     (if c = CHR 0x22 \<or> (of_char c :: nat) < 32 then False
      else if c = CHR 0x5C then
        (case cs of
           [] \<Rightarrow> False
         | d # ds \<Rightarrow>
             if d \<in> set ([CHR 0x22, CHR 0x5C] @ ''/bfnrt'') then json_string_body ds
             else if d = CHR ''u'' then
               4 \<le> length ds \<and> list_all is_hex (take 4 ds) \<and> json_string_body ds
             else False)
      else json_string_body cs)"

text \<open>
  A line is an error envelope when it is the JSON text of an object with the one key
  \<^verbatim>\<open>error\<close> and a string value, in the layout the script prints.
\<close>

definition is_error_envelope :: "string \<Rightarrow> bool" where
  \<open>is_error_envelope line =
     (let pre = ''{"error": "''; post = ''"}''
      in length pre + length post \<le> length line
         \<and> take (length pre) line = pre
         \<and> drop (length line - length post) line = post
         \<and> json_string_body
              (take (length line - length pre - length post) (drop (length pre) line)))\<close>

subsection \<open>The transcript the specification asks for\<close>

text \<open>
  Trimming removes the whitespace at the end of a text and the whitespace at its start.
  Joining puts the separator between every two neighbours.
\<close>

definition trim :: "string \<Rightarrow> string" where
  "trim s = dropWhile py_isspace (rev (dropWhile py_isspace (rev s)))"

fun join_with :: "string \<Rightarrow> string list \<Rightarrow> string" where
  "join_with sep [] = []"
| "join_with sep [x] = x"
| "join_with sep (x # y # ys) = x @ sep @ join_with sep (y # ys)"

subsection \<open>Sample worlds and collaborators\<close>

text \<open>
  Concrete collaborators on which the model is run. With \<open>env_yielding segs\<close> every
  step succeeds, the media tool writes its output file, the recogniser yields the
  segments \<open>segs\<close> and the temporary file can be removed. In \<open>env_ok\<close> these are \<^verbatim>\<open>"Hello "\<close> and \<^verbatim>\<open>" world"\<close>. The other
  collaborators differ from \<open>env_ok\<close> in one step.
\<close>

definition w_init :: world where
  "w_init = \<lparr>files = {''clip.mp4''}, calls = [], stdout = [], stderr = []\<rparr>"

definition env_yielding :: "segment list \<Rightarrow> env" where
  "env_yielding segs =
     \<lparr>mkstemp = (\<lambda>suffix fs. Inr (''/tmp/tmpk3x9'' @ suffix)),
      run_process = (\<lambda>cmd fs. (Exited 0 [] [], insert (last cmd) fs)),
      load_model = (\<lambda>model_size device compute_type fs. (None, fs)),
      run_inference = (\<lambda>model audio beam_size fs.
        (Inr (foldr Yield segs Stop,
              \<lparr>language = ''en'', language_probability = 1, duration = 2\<rparr>), fs)),
      signal_name = (\<lambda>n. if n = 9 then Some ''SIGKILL'' else None),
      float_repr = (\<lambda>x. if x = 1 then ''1.0'' else if x = 2 then ''2.0'' else ''0.0''),
      stat_permitted = (\<lambda>path fs. True),
      unlink_error = (\<lambda>path fs. None)\<rparr>"

definition env_ok :: env where
  "env_ok = env_yielding [\<lparr>text = ''Hello ''\<rparr>, \<lparr>text = '' world''\<rparr>]"

text \<open>The media tool exits with status 1 and the given text on its standard error.\<close>

definition env_ffmpeg_fails :: "string \<Rightarrow> env" where
  "env_ffmpeg_fails err = env_ok\<lparr>run_process := (\<lambda>cmd fs. (Exited 1 [] err, fs))\<rparr>"


text \<open>The model does not load.\<close>

definition env_bad_model :: env where
  "env_bad_model =
     env_ok\<lparr>load_model := (\<lambda>model_size device compute_type fs.
       (Some (LibraryError ''Invalid model size''), fs))\<rparr>"



section \<open>Properties\<close>

subsection \<open>What the steps leave alone, and what they log\<close>

text \<open>No collaborator prints: the two output streams change in \<open>main\<close> only.\<close>

lemma NamedTemporaryFile_io:
  "NamedTemporaryFile env suffix w = (r, w') \<Longrightarrow> stdout w' = stdout w \<and> stderr w' = stderr w"
  by (auto simp: NamedTemporaryFile_def split: sum.splits)

lemma subprocess_run_io:
  "subprocess_run env cmd w = (r, w') \<Longrightarrow> stdout w' = stdout w \<and> stderr w' = stderr w"
  by (auto simp: subprocess_run_def Let_def split: prod.splits proc_outcome.splits if_splits)

lemma WhisperModel_io:
  "WhisperModel env ms dev ct w = (r, w') \<Longrightarrow> stdout w' = stdout w \<and> stderr w' = stderr w"
  by (auto simp: WhisperModel_def Let_def split: prod.splits option.splits)

lemma model_transcribe_io:
  "model_transcribe env m a b w = (r, w') \<Longrightarrow> stdout w' = stdout w \<and> stderr w' = stderr w"
  by (auto simp: model_transcribe_def split: prod.splits)

lemma finally_block_io:
  "finally_block env p w = (r, w') \<Longrightarrow> stdout w' = stdout w \<and> stderr w' = stderr w"
  by (auto simp: finally_block_def os_unlink_def split: if_splits option.splits)

lemma try_block_io:
  assumes "try_block env vp ms p w = (r, w')"
  shows "stdout w' = stdout w \<and> stderr w' = stderr w"
  using assms
  by (auto simp: try_block_def Let_def split: prod.splits sum.splits
      dest!: subprocess_run_io WhisperModel_io model_transcribe_io)

lemma transcribe_video_io:
  assumes "transcribe_video env vp ms w = (r, w')"
  shows "stdout w' = stdout w \<and> stderr w' = stderr w"
  using assms
  by (auto simp: transcribe_video_def split: prod.splits sum.splits
      dest!: NamedTemporaryFile_io try_block_io finally_block_io)

lemma NamedTemporaryFile_calls:
  "NamedTemporaryFile env suffix w = (r, w') \<Longrightarrow> calls w' = calls w @ [CreateTemp suffix]"
  by (auto simp: NamedTemporaryFile_def split: sum.splits)

lemma subprocess_run_calls:
  "subprocess_run env cmd w = (r, w') \<Longrightarrow> calls w' = calls w @ [RunProcess cmd]"
  by (auto simp: subprocess_run_def Let_def split: prod.splits proc_outcome.splits if_splits)

lemma WhisperModel_calls:
  "WhisperModel env ms dev ct w = (r, w') \<Longrightarrow> calls w' = calls w @ [LoadModel ms dev ct]"
  by (auto simp: WhisperModel_def Let_def split: prod.splits option.splits)

lemma WhisperModel_result:
  "WhisperModel env ms dev ct w = (Inr m, w') \<Longrightarrow> m = Model ms dev ct"
  by (auto simp: WhisperModel_def Let_def split: prod.splits option.splits)

lemma model_transcribe_calls:
  "model_transcribe env m a b w = (r, w') \<Longrightarrow> calls w' = calls w @ [Transcribe m a b]"
  by (auto simp: model_transcribe_def split: prod.splits)

lemma finally_block_calls:
  "finally_block env p w = (r, w') \<Longrightarrow>
     calls w' = calls w @ (if os_path_exists env p w then [Unlink p] else [])"
  by (auto simp: finally_block_def os_unlink_def split: if_splits option.splits)



lemma transcribe_video_steps:
  assumes "NamedTemporaryFile env ''.wav'' w = (Inr audio_path, w0)"
    and "try_block env video_path model_size audio_path w0 = (r, w1)"
    and "finally_block env audio_path w1 = (f, w2)"
  shows "transcribe_video env video_path model_size w =
     ((case f of Inl e \<Rightarrow> Inl e | Inr u \<Rightarrow> r), w2)"
  using assms by (simp add: transcribe_video_def split: sum.splits)

lemma try_block_run_calls:
  assumes "try_block env vp ms p w = (r, w')"
  shows "filter is_RunProcess (calls w') = filter is_RunProcess (calls w) @
    [RunProcess [''ffmpeg'', ''-i'', vp, ''-vn'', ''-acodec'', ''pcm_s16le'',
             ''-ar'', ''16000'', ''-ac'', ''1'', ''-y'', p]]"
  using assms
  by (auto simp: try_block_def Let_def split: prod.splits sum.splits
      dest!: subprocess_run_calls WhisperModel_calls model_transcribe_calls)



subsection \<open>The two exits of the \<^verbatim>\<open>try\<close> block of the main program\<close>

lemma main_on_exception:
  assumes "2 \<le> length argv"
    and "transcribe_video env (argv ! 1) (if 2 < length argv then argv ! 2 else ''base'') w
           = (Inl e, w')"
  shows \<open>main env argv w =
     (1, w'\<lparr>stderr := stderr w @ [''{"error": "'' @ str_exn (signal_name env) e @ ''"}'']\<rparr>)\<close>
  using assms transcribe_video_io [OF assms(2)]
  by (simp add: main_def Let_def)

lemma main_on_result:
  assumes "2 \<le> length argv"
    and "transcribe_video env (argv ! 1) (if 2 < length argv then argv ! 2 else ''base'') w
           = (Inr result, w')"
  shows \<open>main env argv w =
     (0, w'\<lparr>stdout := stdout w @ [json_dumps (float_repr env) result]\<rparr>)\<close>
  using assms transcribe_video_io [OF assms(2)]
  by (simp add: main_def Let_def)

subsection \<open>Joining and trimming\<close>

lemma foldl_join: "foldl (\<lambda>acc y. acc @ sep @ y) x xs = x @ concat (map (\<lambda>y. sep @ y) xs)"
  by (induction xs arbitrary: x) simp_all

lemma join_with_Cons: "join_with sep (x # xs) = x @ concat (map (\<lambda>y. sep @ y) xs)"
  by (induction xs arbitrary: x) simp_all

lemma py_join_eq_join_with: "py_join sep xs = join_with sep xs"
  by (cases xs) (simp_all add: foldl_join join_with_Cons)

lemma dropWhile_snoc_keep: "\<not> P x \<Longrightarrow> dropWhile P (ys @ [x]) = dropWhile P ys @ [x]"
  by (induction ys) simp_all

lemma dropWhile_snoc_drop:
  "P x \<Longrightarrow> dropWhile P (rev (dropWhile P (ys @ [x]))) = dropWhile P (rev (dropWhile P ys))"
  by (induction ys) simp_all

text \<open>Stripping the left end first or the right end first gives the same text.\<close>

lemma strip_either_order:
  "rev (dropWhile P (rev (dropWhile P s))) = dropWhile P (rev (dropWhile P (rev s)))"
proof (induction s)
  case Nil
  show ?case by simp
next
  case (Cons x xs)
  show ?case
  proof (cases "P x")
    case True
    then show ?thesis
      using Cons by (simp add: dropWhile_snoc_drop)
  next
    case False
    then show ?thesis
      by (simp add: dropWhile_snoc_keep)
  qed
qed

lemma py_strip_eq_trim: "py_strip s = trim s"
  by (simp add: py_strip_def trim_def strip_either_order)

lemma trim_no_leading_space: "trim s \<noteq> [] \<Longrightarrow> \<not> py_isspace (hd (trim s))"
  unfolding trim_def by (rule hd_dropWhile)

lemma trim_no_trailing_space: "trim s \<noteq> [] \<Longrightarrow> \<not> py_isspace (last (trim s))"
proof -
  assume ne: "trim s \<noteq> []"
  have eq: "trim s = rev (dropWhile py_isspace (rev (dropWhile py_isspace s)))"
    by (simp add: trim_def strip_either_order)
  then have "dropWhile py_isspace (rev (dropWhile py_isspace s)) \<noteq> []"
    using ne by simp
  then have "\<not> py_isspace (hd (dropWhile py_isspace (rev (dropWhile py_isspace s))))"
    by (rule hd_dropWhile)
  then show ?thesis
    using eq ne by (simp add: last_rev)
qed

lemma trim_keeps_middle:
  "\<exists>l r. s = l @ trim s @ r \<and> list_all py_isspace l \<and> list_all py_isspace r"
proof -
  let ?l = "takeWhile py_isspace s"
  let ?m = "dropWhile py_isspace s"
  let ?r = "rev (takeWhile py_isspace (rev ?m))"
  have "rev ?m = takeWhile py_isspace (rev ?m) @ dropWhile py_isspace (rev ?m)"
    by simp
  then have "?m = rev (dropWhile py_isspace (rev ?m)) @ ?r"
    by (metis rev_append rev_rev_ident)
  then have "s = ?l @ trim s @ ?r"
    by (metis takeWhile_dropWhile_id trim_def strip_either_order)
  moreover have "list_all py_isspace ?l"
    by (simp add: list_all_iff) (meson set_takeWhileD)
  moreover have "list_all py_isspace ?r"
    by (simp add: list_all_iff) (meson set_takeWhileD)
  ultimately show ?thesis
    by blast
qed

lemma collect_parts_all:
  "collect_parts (foldr Yield segs Stop) transcript_parts =
     Inr (transcript_parts @ map (\<lambda>segment. py_strip (text segment)) segs)"
  by (induction segs arbitrary: transcript_parts) simp_all

subsection \<open>The JSON texts\<close>

lemma hex_digit_range: "hex_digit d \<in> set ''0123456789abcdef''"
  unfolding hex_digit_def by (rule nth_mem) simp





lemma hex_digit_is_hex: "is_hex (hex_digit d)"
  using hex_digit_range [of d] by (auto simp: is_hex_def)

lemma hex_digit_plain:
  "hex_digit d \<noteq> CHR 0x22" "hex_digit d \<noteq> CHR 0x5C" "\<not> (of_char (hex_digit d) :: nat) < 32"
  using hex_digit_range [of d] by auto

lemma json_string_body_hex:
  "json_string_body (hex_digit d # cs) = json_string_body cs"
  by (simp add: hex_digit_plain)

lemma json_string_body_u00:
  "json_string_body ([CHR 0x5C, CHR ''u'', CHR ''0'', CHR ''0'', hex_digit a, hex_digit b] @ cs)
     = json_string_body cs"
proof -
  let ?ds = "CHR ''0'' # CHR ''0'' # hex_digit a # hex_digit b # cs"
  have "json_string_body (CHR 0x5C # CHR ''u'' # ?ds) =
      (4 \<le> length ?ds \<and> list_all is_hex (take 4 ?ds) \<and> json_string_body ?ds)"
    by simp
  moreover have "4 \<le> length ?ds"
    by simp
  moreover have "take 4 ?ds = [CHR ''0'', CHR ''0'', hex_digit a, hex_digit b]"
    by (simp add: numeral_eq_Suc)
  moreover have "is_hex (CHR ''0'')"
    by (simp add: is_hex_def)
  moreover have "json_string_body ?ds = json_string_body (hex_digit a # hex_digit b # cs)"
    by simp
  ultimately show ?thesis
    by (simp add: json_string_body_hex hex_digit_is_hex del: json_string_body.simps)
qed

lemma json_string_body_escape:
  "json_string_body (json_escape c @ cs) = json_string_body cs"
proof (cases "c \<in> {CHR 0x22, CHR 0x5C, CHR 0x0A, CHR 0x0D, CHR 0x09, CHR 0x08, CHR 0x0C}")
  case True
  then show ?thesis
    by (auto simp: json_escape_def)
next
  case special: False
  show ?thesis
  proof (cases "32 \<le> (of_char c :: nat) \<and> (of_char c :: nat) < 127")
    case True
    with special show ?thesis
      by (simp add: json_escape_def)
  next
    case False
    with special have "json_escape c =
        [CHR 0x5C, CHR ''u'', CHR ''0'', CHR ''0'', hex_digit (of_char c div 16), hex_digit (of_char c)]"
      by (simp add: json_escape_def hex2_def)
    then show ?thesis
      using json_string_body_u00 [of "of_char c div 16" "of_char c" cs]
      by (simp del: json_string_body.simps)
  qed
qed

lemma json_string_body_escaped:
  "json_string_body (concat (map json_escape s))"
  by (induction s) (simp_all add: json_string_body_escape)

text \<open>
  Had the message gone through the escaping of \<^verbatim>\<open>json.dumps\<close>, as the result does on
  the success path, the error line would be an error envelope whatever the message.
\<close>

lemma escaped_message_is_envelope:
  \<open>is_error_envelope (''{"error": '' @ json_string msg @ ''}'')\<close>
  by (simp add: is_error_envelope_def json_string_def json_string_body_escaped)

subsection \<open>Runs on the sample collaborators\<close>

lemmas sample_defs = env_yielding_def env_ok_def w_init_def

lemmas step_defs = NamedTemporaryFile_def subprocess_run_def WhisperModel_def
  model_transcribe_def os_path_exists_def os_unlink_def finally_block_def try_block_def
  transcribe_video_def Let_def

lemmas text_defs = str_list_def py_repr_def repr_char_def py_printable_def show_int_def
  hex_digit_def hex2_def Let_def

lemma yielding_tmp:
  "NamedTemporaryFile (env_yielding segs) ''.wav'' w_init =
     (Inr ''/tmp/tmpk3x9.wav'',
      \<lparr>files = {''/tmp/tmpk3x9.wav'', ''clip.mp4''}, calls = [CreateTemp ''.wav''],
       stdout = [], stderr = []\<rparr>)"
  by (simp add: NamedTemporaryFile_def sample_defs)

lemma yielding_run:
  "subprocess_run (env_yielding segs)
     [''ffmpeg'', ''-i'', ''clip.mp4'', ''-vn'', ''-acodec'', ''pcm_s16le'',
      ''-ar'', ''16000'', ''-ac'', ''1'', ''-y'', ''/tmp/tmpk3x9.wav'']
     \<lparr>files = {''/tmp/tmpk3x9.wav'', ''clip.mp4''}, calls = [CreateTemp ''.wav''],
      stdout = [], stderr = []\<rparr> =
   (Inr (),
    \<lparr>files = {''/tmp/tmpk3x9.wav'', ''clip.mp4''},
     calls = [CreateTemp ''.wav'',
        RunProcess [''ffmpeg'', ''-i'', ''clip.mp4'', ''-vn'', ''-acodec'', ''pcm_s16le'',
          ''-ar'', ''16000'', ''-ac'', ''1'', ''-y'', ''/tmp/tmpk3x9.wav'']],
     stdout = [], stderr = []\<rparr>)"
  by (simp add: subprocess_run_def sample_defs)

lemma yielding_load:
  "WhisperModel (env_yielding segs) ''base'' ''cpu'' ''int8''
     \<lparr>files = {''/tmp/tmpk3x9.wav'', ''clip.mp4''},
      calls = [CreateTemp ''.wav'',
        RunProcess [''ffmpeg'', ''-i'', ''clip.mp4'', ''-vn'', ''-acodec'', ''pcm_s16le'',
          ''-ar'', ''16000'', ''-ac'', ''1'', ''-y'', ''/tmp/tmpk3x9.wav'']],
      stdout = [], stderr = []\<rparr> =
   (Inr (Model ''base'' ''cpu'' ''int8''),
    \<lparr>files = {''/tmp/tmpk3x9.wav'', ''clip.mp4''},
     calls = [CreateTemp ''.wav'',
        RunProcess [''ffmpeg'', ''-i'', ''clip.mp4'', ''-vn'', ''-acodec'', ''pcm_s16le'',
          ''-ar'', ''16000'', ''-ac'', ''1'', ''-y'', ''/tmp/tmpk3x9.wav''],
        LoadModel ''base'' ''cpu'' ''int8''],
     stdout = [], stderr = []\<rparr>)"
  by (simp add: WhisperModel_def sample_defs)

lemma yielding_inference:
  "model_transcribe (env_yielding segs) (Model ''base'' ''cpu'' ''int8'') ''/tmp/tmpk3x9.wav'' 5
     \<lparr>files = {''/tmp/tmpk3x9.wav'', ''clip.mp4''},
      calls = [CreateTemp ''.wav'',
        RunProcess [''ffmpeg'', ''-i'', ''clip.mp4'', ''-vn'', ''-acodec'', ''pcm_s16le'',
          ''-ar'', ''16000'', ''-ac'', ''1'', ''-y'', ''/tmp/tmpk3x9.wav''],
        LoadModel ''base'' ''cpu'' ''int8''],
      stdout = [], stderr = []\<rparr> =
   (Inr (foldr Yield segs Stop,
         \<lparr>language = ''en'', language_probability = 1, duration = 2\<rparr>),
    \<lparr>files = {''/tmp/tmpk3x9.wav'', ''clip.mp4''},
     calls = [CreateTemp ''.wav'',
        RunProcess [''ffmpeg'', ''-i'', ''clip.mp4'', ''-vn'', ''-acodec'', ''pcm_s16le'',
          ''-ar'', ''16000'', ''-ac'', ''1'', ''-y'', ''/tmp/tmpk3x9.wav''],
        LoadModel ''base'' ''cpu'' ''int8'',
        Transcribe (Model ''base'' ''cpu'' ''int8'') ''/tmp/tmpk3x9.wav'' 5],
     stdout = [], stderr = []\<rparr>)"
  by (simp add: model_transcribe_def sample_defs)

lemma yielding_cleanup:
  "finally_block (env_yielding segs) ''/tmp/tmpk3x9.wav''
     \<lparr>files = {''/tmp/tmpk3x9.wav'', ''clip.mp4''},
      calls = [CreateTemp ''.wav'',
        RunProcess [''ffmpeg'', ''-i'', ''clip.mp4'', ''-vn'', ''-acodec'', ''pcm_s16le'',
          ''-ar'', ''16000'', ''-ac'', ''1'', ''-y'', ''/tmp/tmpk3x9.wav''],
        LoadModel ''base'' ''cpu'' ''int8'',
        Transcribe (Model ''base'' ''cpu'' ''int8'') ''/tmp/tmpk3x9.wav'' 5],
      stdout = [], stderr = []\<rparr> =
   (Inr (),
    \<lparr>files = {''clip.mp4''},
     calls = [CreateTemp ''.wav'',
        RunProcess [''ffmpeg'', ''-i'', ''clip.mp4'', ''-vn'', ''-acodec'', ''pcm_s16le'',
          ''-ar'', ''16000'', ''-ac'', ''1'', ''-y'', ''/tmp/tmpk3x9.wav''],
        LoadModel ''base'' ''cpu'' ''int8'',
        Transcribe (Model ''base'' ''cpu'' ''int8'') ''/tmp/tmpk3x9.wav'' 5,
        Unlink ''/tmp/tmpk3x9.wav''],
     stdout = [], stderr = []\<rparr>)"
  by (simp add: finally_block_def os_path_exists_def os_unlink_def sample_defs)

lemma env_ok_result:
  "transcribe_video env_ok ''clip.mp4'' ''base'' w_init =
     (Inr [(''transcript'', JString ''Hello world''),
          (''language'', JString ''en''),
          (''language_probability'', JNumber 1),
          (''duration'', JNumber 2)],
      \<lparr>files = {''clip.mp4''},
       calls = [CreateTemp ''.wav'',
          RunProcess [''ffmpeg'', ''-i'', ''clip.mp4'', ''-vn'', ''-acodec'', ''pcm_s16le'',
            ''-ar'', ''16000'', ''-ac'', ''1'', ''-y'', ''/tmp/tmpk3x9.wav''],
          LoadModel ''base'' ''cpu'' ''int8'',
          Transcribe (Model ''base'' ''cpu'' ''int8'') ''/tmp/tmpk3x9.wav'' 5,
          Unlink ''/tmp/tmpk3x9.wav''],
       stdout = [], stderr = []\<rparr>)"
  by (simp add: step_defs sample_defs py_strip_def py_isspace_def)



section \<open>The claims\<close>

subsection \<open>C1: the temporary file after the call\<close>




subsection \<open>C2: the transcript\<close>

text \<open>
  C2. When the three steps succeed, the recogniser yields the finite sequence of
  segments \<open>segs\<close> and the cleanup does not raise, so that the call returns a result,
  the transcript field of the result is the texts of the segments,
  each trimmed of its leading and trailing whitespace first, then joined in sequence
  order by a single space; the other three fields are copied from the recogniser's
  metadata.
\<close>

theorem transcript_trimmed_then_joined:
  assumes tmp: "NamedTemporaryFile env ''.wav'' w = (Inr audio_path, w0)"
    and run: "subprocess_run env
        [''ffmpeg'', ''-i'', video_path, ''-vn'', ''-acodec'', ''pcm_s16le'',
         ''-ar'', ''16000'', ''-ac'', ''1'', ''-y'', audio_path] w0 = (Inr (), w1)"
    and load: "WhisperModel env model_size ''cpu'' ''int8'' w1 = (Inr model, w2)"
    and inf: "model_transcribe env model audio_path 5 w2 = (Inr (foldr Yield segs Stop, info), w3)"
    and fin: "finally_block env audio_path w3 = (Inr (), w4)"
  shows "fst (transcribe_video env video_path model_size w) =
     Inr [(''transcript'', JString (join_with '' '' (map (\<lambda>segment. trim (text segment)) segs))),
          (''language'', JString (language info)),
          (''language_probability'', JNumber (language_probability info)),
          (''duration'', JNumber (duration info))]"
proof -
  have "try_block env video_path model_size audio_path w0 =
     (Inr [(''transcript'', JString (join_with '' '' (map (\<lambda>segment. trim (text segment)) segs))),
          (''language'', JString (language info)),
          (''language_probability'', JNumber (language_probability info)),
          (''duration'', JNumber (duration info))], w3)"
    using run load inf
    by (simp add: try_block_def collect_parts_all py_join_eq_join_with py_strip_eq_trim)
  from transcribe_video_steps [OF tmp this fin] show ?thesis
    by simp
qed

text \<open>
  Witness of C2: the segments \<^verbatim>\<open>"Hello "\<close> and \<^verbatim>\<open>" world"\<close> give \<^verbatim>\<open>"Hello world"\<close>, and no
  segment at all gives the empty transcript.
\<close>

theorem transcript_trimmed_then_joined_witness:
  "fst (transcribe_video env_ok ''clip.mp4'' ''base'' w_init) =
     Inr [(''transcript'', JString ''Hello world''),
          (''language'', JString ''en''),
          (''language_probability'', JNumber 1),
          (''duration'', JNumber 2)]
   \<and> fst (transcribe_video (env_yielding []) ''clip.mp4'' ''base'' w_init) =
     Inr [(''transcript'', JString ''''),
          (''language'', JString ''en''),
          (''language_probability'', JNumber 1),
          (''duration'', JNumber 2)]"
  using transcript_trimmed_then_joined
      [OF yielding_tmp yielding_run yielding_load yielding_inference yielding_cleanup,
       of "[\<lparr>text = ''Hello ''\<rparr>, \<lparr>text = '' world''\<rparr>]"]
    transcript_trimmed_then_joined
      [OF yielding_tmp yielding_run yielding_load yielding_inference yielding_cleanup, of "[]"]
  by (simp add: env_ok_def trim_def py_isspace_def)

subsection \<open>C3: the error line\<close>

text \<open>
  C3. Every exception of a pipeline step is caught by the main program, which prints
  one line on standard error, prints nothing on standard output and exits with code 1
  (this is \<open>main_on_exception\<close>). The line is the message of the exception put
  between \<^verbatim>\<open>{"error": "\<close> and \<^verbatim>\<open>"}\<close> as it is, without the escaping that \<open>json_dumps\<close>
  applies on the success path. For the video path \<^verbatim>\<open>it's.mp4\<close>, which does not exist,
  the media tool exits with status 1, the message quotes the path in double quotes,
  and the line printed is not the JSON text of an object with the one key \<^verbatim>\<open>error\<close>.
\<close>

theorem error_line_not_json:
  \<open>main (env_ffmpeg_fails ''it's.mp4: No such file or directory'')
      [''transcribe.py'', ''it's.mp4''] w_init =
     (1, \<lparr>files = {''clip.mp4''},
          calls = [CreateTemp ''.wav'',
                   RunProcess [''ffmpeg'', ''-i'', ''it's.mp4'', ''-vn'', ''-acodec'', ''pcm_s16le'',
                     ''-ar'', ''16000'', ''-ac'', ''1'', ''-y'', ''/tmp/tmpk3x9.wav''],
                   Unlink ''/tmp/tmpk3x9.wav''],
          stdout = [],
          stderr = [''{"error": "Command '['ffmpeg', '-i', "it's.mp4", '-vn', '-acodec', 'pcm_s16le', '-ar', '16000', '-ac', '1', '-y', '/tmp/tmpk3x9.wav']' returned non-zero exit status 1."}'']\<rparr>)
   \<and> \<not> is_error_envelope ''{"error": "Command '['ffmpeg', '-i', "it's.mp4", '-vn', '-acodec', 'pcm_s16le', '-ar', '16000', '-ac', '1', '-y', '/tmp/tmpk3x9.wav']' returned non-zero exit status 1."}''\<close>
  by (simp add: main_def step_defs env_ffmpeg_fails_def sample_defs text_defs is_error_envelope_def)

subsection \<open>C4: what the error of a failed extraction carries\<close>




subsection \<open>C5: the output of a successful run\<close>



subsection \<open>C6: the usage error\<close>

text \<open>
  C6. When the process is started with no positional argument, it exits with code 1
  and prints on standard error one line, a JSON object with the key \<^verbatim>\<open>error\<close> whose
  value starts with \<^verbatim>\<open>Usage\<close>; no collaborator is called and no file is created, and
  nothing is printed on standard output.
\<close>

theorem usage_error:
  assumes "length argv < 2"
  shows \<open>main env argv w =
      (1, w\<lparr>stderr := stderr w @ [''{"error": "Usage: transcribe.py <video_path> [model_size]"}'']\<rparr>)
    \<and> is_error_envelope ''{"error": "Usage: transcribe.py <video_path> [model_size]"}''
    \<and> take 5 (drop 11 ''{"error": "Usage: transcribe.py <video_path> [model_size]"}'') = ''Usage''
    \<and> calls (snd (main env argv w)) = calls w
    \<and> files (snd (main env argv w)) = files w
    \<and> stdout (snd (main env argv w)) = stdout w\<close>
  using assms by (simp add: main_def is_error_envelope_def)

text \<open>Witness of C6: the script started with no argument.\<close>

theorem usage_error_witness:
  \<open>length [''transcribe.py''] < 2
   \<and> main env_ok [''transcribe.py''] w_init =
     (1, \<lparr>files = {''clip.mp4''}, calls = [], stdout = [],
          stderr = [''{"error": "Usage: transcribe.py <video_path> [model_size]"}'']\<rparr>)\<close>
proof -
  have len: "length [''transcribe.py''] < 2"
    by simp
  from usage_error [OF len, of env_ok w_init] len show ?thesis
    by (simp add: w_init_def)
qed

subsection \<open>C7: how the model is loaded and run\<close>

text \<open>
  C7. In every call that reaches the recognition step (the temporary file was created
  and the media tool exited with status 0), the model is loaded once, with the given
  size, the device \<^verbatim>\<open>cpu\<close> and the compute type \<^verbatim>\<open>int8\<close>; if it loads, inference is run
  once, on the temporary audio file with beam size 5, whatever the arguments of the
  call; and there is no other call of the loader or of the recogniser.
\<close>

theorem recognition_parameters:
  assumes tmp: "NamedTemporaryFile env ''.wav'' w = (Inr audio_path, w0)"
    and run: "subprocess_run env
        [''ffmpeg'', ''-i'', video_path, ''-vn'', ''-acodec'', ''pcm_s16le'',
         ''-ar'', ''16000'', ''-ac'', ''1'', ''-y'', audio_path] w0 = (Inr (), w1)"
  shows "filter (\<lambda>c. is_LoadModel c \<or> is_Transcribe c)
           (calls (snd (transcribe_video env video_path model_size w))) =
         filter (\<lambda>c. is_LoadModel c \<or> is_Transcribe c) (calls w) @
         [LoadModel model_size ''cpu'' ''int8''] @
         (if fst (load_model env model_size ''cpu'' ''int8'' (files w1)) = None
          then [Transcribe (Model model_size ''cpu'' ''int8'') audio_path 5] else [])"
proof -
  let ?P = "\<lambda>c. is_LoadModel c \<or> is_Transcribe c"
  have c0: "filter ?P (calls w0) = filter ?P (calls w)"
    using NamedTemporaryFile_calls [OF tmp] by simp
  have c1: "filter ?P (calls w1) = filter ?P (calls w)"
    using subprocess_run_calls [OF run] c0 by simp
  obtain r w2 where load: "WhisperModel env model_size ''cpu'' ''int8'' w1 = (r, w2)"
    by (cases "WhisperModel env model_size ''cpu'' ''int8'' w1")
  have c2: "filter ?P (calls w2) = filter ?P (calls w) @ [LoadModel model_size ''cpu'' ''int8'']"
    using WhisperModel_calls [OF load] c1 by simp
  have ok: "(fst (load_model env model_size ''cpu'' ''int8'' (files w1)) = None) = (\<exists>m. r = Inr m)"
    using load by (auto simp: WhisperModel_def Let_def split: prod.splits option.splits)
  show ?thesis
  proof (cases r)
    case (Inl e)
    then have body: "try_block env video_path model_size audio_path w0 = (Inl e, w2)"
      using run load by (simp add: try_block_def)
    obtain f w4 where fin: "finally_block env audio_path w2 = (f, w4)"
      by (cases "finally_block env audio_path w2")
    have "filter ?P (calls w4) = filter ?P (calls w2)"
      using finally_block_calls [OF fin] by simp
    then show ?thesis
      using transcribe_video_steps [OF tmp body fin] c2 ok Inl by simp
  next
    case (Inr model)
    then have m: "model = Model model_size ''cpu'' ''int8''"
      using load WhisperModel_result by blast
    obtain r3 w3 where inf: "model_transcribe env model audio_path 5 w2 = (r3, w3)"
      by (cases "model_transcribe env model audio_path 5 w2")
    have c3: "filter ?P (calls w3) = filter ?P (calls w) @
        [LoadModel model_size ''cpu'' ''int8'', Transcribe model audio_path 5]"
      using model_transcribe_calls [OF inf] c2 by simp
    have "\<exists>r'. try_block env video_path model_size audio_path w0 = (r', w3)"
      using run load inf Inr
      by (auto simp: try_block_def split: sum.splits prod.splits)
    then obtain r' where body: "try_block env video_path model_size audio_path w0 = (r', w3)"
      by blast
    obtain f w4 where fin: "finally_block env audio_path w3 = (f, w4)"
      by (cases "finally_block env audio_path w3")
    have "filter ?P (calls w4) = filter ?P (calls w3)"
      using finally_block_calls [OF fin] by simp
    then show ?thesis
      using transcribe_video_steps [OF tmp body fin] c3 ok Inr m by simp
  qed
qed

text \<open>Witness of C7: the run on \<open>env_ok\<close> with the size \<^verbatim>\<open>base\<close>.\<close>

theorem recognition_parameters_witness:
  "filter (\<lambda>c. is_LoadModel c \<or> is_Transcribe c)
     (calls (snd (transcribe_video env_ok ''clip.mp4'' ''base'' w_init))) =
   [LoadModel ''base'' ''cpu'' ''int8'',
    Transcribe (Model ''base'' ''cpu'' ''int8'') ''/tmp/tmpk3x9.wav'' 5]"
  using recognition_parameters
    [OF yielding_tmp [of "[\<lparr>text = ''Hello ''\<rparr>, \<lparr>text = '' world''\<rparr>]"] yielding_run,
     where model_size = "''base''"]
  by (simp add: sample_defs)

subsection \<open>C8: the command line of the media tool\<close>

text \<open>
  C8. Every start of the media tool by \<open>transcribe_video\<close> has exactly the argument
  vector \<^verbatim>\<open>ffmpeg -i <video> -vn -acodec pcm_s16le -ar 16000 -ac 1 -y <temporary path>\<close>:
  no video stream, PCM 16-bit little-endian audio, 16000 Hz, one channel, output
  overwritten, the temporary path as output. The tool is started once in every call
  that created its temporary file, and in no other.
\<close>

theorem ffmpeg_invocation:
  "filter is_RunProcess (calls (snd (transcribe_video env video_path model_size w))) =
     filter is_RunProcess (calls w) @
     (case mkstemp env ''.wav'' (files w) of
        Inl e \<Rightarrow> []
      | Inr audio_path \<Rightarrow>
          [RunProcess [''ffmpeg'', ''-i'', video_path, ''-vn'', ''-acodec'', ''pcm_s16le'',
             ''-ar'', ''16000'', ''-ac'', ''1'', ''-y'', audio_path]])"
proof (cases "mkstemp env ''.wav'' (files w)")
  case (Inl e)
  then show ?thesis
    by (simp add: transcribe_video_def NamedTemporaryFile_def)
next
  case (Inr audio_path)
  define w0 where
    "w0 = w\<lparr>files := insert audio_path (files w), calls := calls w @ [CreateTemp ''.wav'']\<rparr>"
  have tmp: "NamedTemporaryFile env ''.wav'' w = (Inr audio_path, w0)"
    using Inr by (simp add: NamedTemporaryFile_def w0_def)
  obtain r w1 where body: "try_block env video_path model_size audio_path w0 = (r, w1)"
    by (cases "try_block env video_path model_size audio_path w0")
  obtain f w2 where fin: "finally_block env audio_path w1 = (f, w2)"
    by (cases "finally_block env audio_path w1")
  have "filter is_RunProcess (calls w2) = filter is_RunProcess (calls w1)"
    using finally_block_calls [OF fin] by simp
  moreover have "filter is_RunProcess (calls w0) = filter is_RunProcess (calls w)"
    by (simp add: w0_def)
  ultimately show ?thesis
    using transcribe_video_steps [OF tmp body fin] try_block_run_calls [OF body] Inr
    by simp
qed

text \<open>Witness of C8: the run on \<open>env_ok\<close>.\<close>

theorem ffmpeg_invocation_witness:
  "filter is_RunProcess (calls (snd (transcribe_video env_ok ''clip.mp4'' ''base'' w_init))) =
   [RunProcess [''ffmpeg'', ''-i'', ''clip.mp4'', ''-vn'', ''-acodec'', ''pcm_s16le'',
      ''-ar'', ''16000'', ''-ac'', ''1'', ''-y'', ''/tmp/tmpk3x9.wav'']]"
  using ffmpeg_invocation [of env_ok "''clip.mp4''" "''base''" w_init]
  by (simp add: sample_defs)

subsection \<open>C9: the model size\<close>

text \<open>
  C9. With exactly one positional argument, the main program makes the calls, and
  leaves the files, of \<open>transcribe_video\<close> run with the model size \<^verbatim>\<open>base\<close>; with a second
  positional argument, those of \<open>transcribe_video\<close> run with that argument, unchanged, as
  the model size.
\<close>

theorem default_model_size:
  "(length argv = 2 \<longrightarrow>
      calls (snd (main env argv w)) = calls (snd (transcribe_video env (argv ! 1) ''base'' w))
      \<and> files (snd (main env argv w)) = files (snd (transcribe_video env (argv ! 1) ''base'' w)))
   \<and> (2 < length argv \<longrightarrow>
      calls (snd (main env argv w)) = calls (snd (transcribe_video env (argv ! 1) (argv ! 2) w))
      \<and> files (snd (main env argv w)) = files (snd (transcribe_video env (argv ! 1) (argv ! 2) w)))"
  by (auto simp: main_def Let_def split: prod.splits sum.splits)

text \<open>
  Witness of C9: with one argument the model loaded is \<^verbatim>\<open>base\<close>, with the second
  argument \<^verbatim>\<open>small\<close> it is \<^verbatim>\<open>small\<close>.
\<close>

theorem default_model_size_witness:
  "calls (snd (main env_ok [''transcribe.py'', ''clip.mp4''] w_init)) =
     [CreateTemp ''.wav'',
      RunProcess [''ffmpeg'', ''-i'', ''clip.mp4'', ''-vn'', ''-acodec'', ''pcm_s16le'',
        ''-ar'', ''16000'', ''-ac'', ''1'', ''-y'', ''/tmp/tmpk3x9.wav''],
      LoadModel ''base'' ''cpu'' ''int8'',
      Transcribe (Model ''base'' ''cpu'' ''int8'') ''/tmp/tmpk3x9.wav'' 5,
      Unlink ''/tmp/tmpk3x9.wav'']
   \<and> filter is_LoadModel
        (calls (snd (main env_ok [''transcribe.py'', ''clip.mp4'', ''small''] w_init))) =
     [LoadModel ''small'' ''cpu'' ''int8'']"
proof -
  have two: "length [''transcribe.py'', ''clip.mp4''] = 2"
    by simp
  have three: "2 < length [''transcribe.py'', ''clip.mp4'', ''small'']"
    by simp
  have small: "filter is_LoadModel
      (calls (snd (transcribe_video env_ok ''clip.mp4'' ''small'' w_init))) =
      [LoadModel ''small'' ''cpu'' ''int8'']"
    by (simp add: step_defs sample_defs)
  from default_model_size [of "[''transcribe.py'', ''clip.mp4'']" env_ok w_init]
    default_model_size [of "[''transcribe.py'', ''clip.mp4'', ''small'']" env_ok w_init]
    two three small env_ok_result
  show ?thesis
    by simp
qed

subsection \<open>C10: a failing run prints nothing on standard output\<close>

text \<open>
  C10. Every run that fails, that is every run whose exit code is not 0 (a usage
  error or an exception of a pipeline step), leaves standard output as it was and
  prints exactly one line on standard error.
\<close>

theorem no_stdout_on_failure:
  assumes "fst (main env argv w) \<noteq> 0"
  shows "stdout (snd (main env argv w)) = stdout w
    \<and> length (stderr (snd (main env argv w))) = Suc (length (stderr w))"
proof (cases "length argv < 2")
  case True
  then show ?thesis by (simp add: main_def)
next
  case False
  obtain r w' where tv:
    "transcribe_video env (argv ! 1) (if 2 < length argv then argv ! 2 else ''base'') w = (r, w')"
    by (cases "transcribe_video env (argv ! 1) (if 2 < length argv then argv ! 2 else ''base'') w")
  show ?thesis
  proof (cases r)
    case (Inl e)
    with False tv transcribe_video_io [OF tv] show ?thesis
      by (simp add: main_on_exception)
  next
    case (Inr result)
    with False tv assms show ?thesis
      by (simp add: main_on_result)
  qed
qed

text \<open>Witness of C10: the model does not load.\<close>

theorem no_stdout_on_failure_witness:
  \<open>fst (main env_bad_model [''transcribe.py'', ''clip.mp4'', ''huge''] w_init) \<noteq> 0
   \<and> stdout (snd (main env_bad_model [''transcribe.py'', ''clip.mp4'', ''huge''] w_init)) = []
   \<and> stderr (snd (main env_bad_model [''transcribe.py'', ''clip.mp4'', ''huge''] w_init)) =
       [''{"error": "Invalid model size"}'']\<close>
proof -
  have fails: "fst (main env_bad_model [''transcribe.py'', ''clip.mp4'', ''huge''] w_init) \<noteq> 0"
    by (simp add: main_def step_defs env_bad_model_def sample_defs)
  have line: \<open>stderr (snd (main env_bad_model [''transcribe.py'', ''clip.mp4'', ''huge''] w_init)) =
       [''{"error": "Invalid model size"}'']\<close>
    by (simp add: main_def step_defs env_bad_model_def sample_defs)
  from no_stdout_on_failure [OF fails] fails line show ?thesis
    by (simp add: w_init_def)
qed

end
